theory Spec2Isabelle
  imports Main
begin

section \<open>Python values and exceptions\<close>

text \<open>
  The module \<^verbatim>\<open>commands.py\<close> is Python 2 (\<^verbatim>\<open>iteritems\<close>); its strings are byte
  strings. The values that cross the dispatcher are \<^verbatim>\<open>None\<close>, booleans, integers and
  strings.
\<close>

datatype pyval = PyNone | PyBool bool | PyInt int | PyStr string

text \<open>\<^verbatim>\<open>COMMAND_HANDLED = True\<close>, \<^verbatim>\<open>COMMAND_NOT_HANDLED = None\<close>.\<close>

definition COMMAND_HANDLED :: pyval where
  "COMMAND_HANDLED = PyBool True"

definition COMMAND_NOT_HANDLED :: pyval where
  "COMMAND_NOT_HANDLED = PyNone"

text \<open>
  The exceptions the module raises or lets through. \<open>CommandException\<close> and its subclass
  \<open>UnknownCommandException\<close> carry \<^verbatim>\<open>command_text\<close> and \<^verbatim>\<open>message\<close> (default
  \<^verbatim>\<open>None\<close>); \<open>PlainException\<close> is the bare \<^verbatim>\<open>Exception(msg)\<close> of \<^verbatim>\<open>parse\<close>;
  \<open>ReError\<close> is \<^verbatim>\<open>re.error\<close>; the others are the builtin exceptions of the same name.
\<close>

datatype exc =
    CommandException string "string option"
  | UnknownCommandException string "string option"
  | PlainException string
  | TypeError
  | ValueError
  | KeyError
  | AttributeError
  | ReError
  | OtherError string

text \<open>\<^verbatim>\<open>isinstance(e, CommandException)\<close>: the class and its subclass.\<close>

fun is_CommandException :: "exc \<Rightarrow> bool" where
  "is_CommandException (CommandException t m) = True"
| "is_CommandException (UnknownCommandException t m) = True"
| "is_CommandException e = False"

fun command_text_of :: "exc \<Rightarrow> string option" where
  "command_text_of (CommandException t m) = Some t"
| "command_text_of (UnknownCommandException t m) = Some t"
| "command_text_of e = None"

fun message_of :: "exc \<Rightarrow> string option" where
  "message_of (CommandException t m) = m"
| "message_of (UnknownCommandException t m) = m"
| "message_of e = None"

section \<open>Strings\<close>

text \<open>The six characters \<^verbatim>\<open>str.strip()\<close> removes and \<^verbatim>\<open>\s\<close> matches: space, \<^verbatim>\<open>\t \n \v \f \r\<close>.\<close>

definition isspace :: "char \<Rightarrow> bool" where
  "isspace c = (c = CHR '' '' \<or> c = CHR 0x09 \<or> c = CHR 0x0A
              \<or> c = CHR 0x0B \<or> c = CHR 0x0C \<or> c = CHR 0x0D)"

definition isdigit :: "char \<Rightarrow> bool" where
  "isdigit c = (c \<in> set ''0123456789'')"

definition strip :: "string \<Rightarrow> string" where
  "strip s = rev (dropWhile isspace (rev (dropWhile isspace s)))"

text \<open>\<^verbatim>\<open>s.startswith("/")\<close> and \<^verbatim>\<open>s[1:]\<close> (the empty string when \<^verbatim>\<open>s\<close> is empty).\<close>

definition startswith_slash :: "string \<Rightarrow> bool" where
  "startswith_slash s = (case s of [] \<Rightarrow> False | c # _ \<Rightarrow> c = CHR ''/'')"

definition from1 :: "string \<Rightarrow> string" where
  "from1 s = drop 1 s"

section \<open>Regular expressions: the part of \<^verbatim>\<open>re\<close> the patterns use\<close>

text \<open>
  A pattern is kept as its syntax tree. The atoms are a literal character, \<^verbatim>\<open>.\<close> (any
  character but a newline), \<^verbatim>\<open>\d\<close> and \<^verbatim>\<open>\s\<close>. \<open>Star\<close> and \<open>Plus\<close> are the greedy
  \<^verbatim>\<open>*\<close> and \<^verbatim>\<open>+\<close> on one atom, \<open>Opt\<close> the greedy \<^verbatim>\<open>?\<close>, \<open>Group\<close> a capturing group
  \<^verbatim>\<open>(...)\<close> and \<open>Named n\<close> the group \<^verbatim>\<open>(?P<n>...)\<close>; a non-capturing \<^verbatim>\<open>(?:...)\<close> is
  plain nesting.
\<close>

datatype atom = Chr char | AnyChar | Digit | Space

datatype regex =
    Atom atom
  | Bol
  | Eol
  | Eps
  | Seq regex regex
  | Alt regex regex
  | Star atom
  | Plus atom
  | Opt regex
  | Group regex
  | Named string regex

fun atom_ok :: "atom \<Rightarrow> char \<Rightarrow> bool" where
  "atom_ok (Chr c) x = (x = c)"
| "atom_ok AnyChar x = (x \<noteq> CHR 0x0A)"
| "atom_ok Digit x = isdigit x"
| "atom_ok Space x = isspace x"

text \<open>The literal text \<^verbatim>\<open>abc\<close> and the concatenation of a list of patterns.\<close>

definition lit :: "string \<Rightarrow> regex" where
  "lit s = foldr (\<lambda>c r. Seq (Atom (Chr c)) r) s Eps"

definition seqs :: "regex list \<Rightarrow> regex" where
  "seqs rs = foldr Seq rs Eps"

text \<open>The number of capturing groups of a pattern (\<^verbatim>\<open>pattern.groups\<close>).\<close>

fun ngroups :: "regex \<Rightarrow> nat" where
  "ngroups (Seq r1 r2) = ngroups r1 + ngroups r2"
| "ngroups (Alt r1 r2) = ngroups r1 + ngroups r2"
| "ngroups (Opt r) = ngroups r"
| "ngroups (Group r) = Suc (ngroups r)"
| "ngroups (Named n r) = Suc (ngroups r)"
| "ngroups r = 0"

text \<open>
  \<^verbatim>\<open>pattern.groupindex\<close>: the number of each named group. Groups are numbered from 1 by
  their opening parenthesis, left to right; \<open>k\<close> is the number of groups opened before
  the subpattern.
\<close>

fun groupindex_from :: "nat \<Rightarrow> regex \<Rightarrow> (string \<times> nat) list" where
  "groupindex_from k (Seq r1 r2) = groupindex_from k r1 @ groupindex_from (k + ngroups r1) r2"
| "groupindex_from k (Alt r1 r2) = groupindex_from k r1 @ groupindex_from (k + ngroups r1) r2"
| "groupindex_from k (Opt r) = groupindex_from k r"
| "groupindex_from k (Group r) = groupindex_from (Suc k) r"
| "groupindex_from k (Named n r) = (n, Suc k) # groupindex_from (Suc k) r"
| "groupindex_from k r = []"

definition groupindex :: "regex \<Rightarrow> (string \<times> nat) list" where
  "groupindex r = groupindex_from 0 r"

text \<open>
  The backtracking matcher. A state is the position in the subject, the rest of the
  subject from there, and the text captured so far by each group number. \<open>rmatch\<close>
  returns every way the pattern can match from the state, in the order a backtracking
  engine tries them (greedy choices first); the engine's answer is the first one.
\<close>

type_synonym mstate = "nat \<times> string \<times> (nat \<rightharpoonup> string)"

text \<open>The rests after \<^verbatim>\<open>a*\<close>: the longest run first, then shorter ones by backtracking.\<close>

fun star_atom :: "atom \<Rightarrow> string \<Rightarrow> string list" where
  "star_atom a [] = [[]]"
| "star_atom a (c # cs) = (if atom_ok a c then star_atom a cs else []) @ [c # cs]"

fun rmatch :: "nat \<Rightarrow> regex \<Rightarrow> mstate \<Rightarrow> mstate list" where
  "rmatch k (Atom a) (pos, rest, caps) =
     (case rest of [] \<Rightarrow> []
      | c # cs \<Rightarrow> if atom_ok a c then [(Suc pos, cs, caps)] else [])"
| "rmatch k Bol (pos, rest, caps) = (if pos = 0 then [(pos, rest, caps)] else [])"
| "rmatch k Eol (pos, rest, caps) =
     (if rest = [] \<or> rest = [CHR 0x0A] then [(pos, rest, caps)] else [])"
| "rmatch k Eps st = [st]"
| "rmatch k (Seq r1 r2) st = concat (map (rmatch (k + ngroups r1) r2) (rmatch k r1 st))"
| "rmatch k (Alt r1 r2) st = rmatch k r1 st @ rmatch (k + ngroups r1) r2 st"
| "rmatch k (Star a) (pos, rest, caps) =
     map (\<lambda>t. (pos + (length rest - length t), t, caps)) (star_atom a rest)"
| "rmatch k (Plus a) (pos, rest, caps) =
     (case rest of [] \<Rightarrow> []
      | c # cs \<Rightarrow>
          if atom_ok a c
          then map (\<lambda>t. (Suc pos + (length cs - length t), t, caps)) (star_atom a cs)
          else [])"
| "rmatch k (Opt r) st = rmatch k r st @ [st]"
| "rmatch k (Group r) (pos, rest, caps) =
     map (\<lambda>(pos', rest', caps'). (pos', rest', caps'(Suc k \<mapsto> take (pos' - pos) rest)))
       (rmatch (Suc k) r (pos, rest, caps))"
| "rmatch k (Named n r) (pos, rest, caps) =
     map (\<lambda>(pos', rest', caps'). (pos', rest', caps'(Suc k \<mapsto> take (pos' - pos) rest)))
       (rmatch (Suc k) r (pos, rest, caps))"

text \<open>
  A match object: \<^verbatim>\<open>m.groups()\<close> (one entry per group, \<^verbatim>\<open>None\<close> for a group that
  took no part in the match) and the \<^verbatim>\<open>groupindex\<close> of its pattern.
\<close>

record match =
  groups :: "pyval list"
  mgroupindex :: "(string \<times> nat) list"

definition group_val :: "(nat \<rightharpoonup> string) \<Rightarrow> nat \<Rightarrow> pyval" where
  "group_val caps i = (case caps i of None \<Rightarrow> PyNone | Some s \<Rightarrow> PyStr s)"

text \<open>
  \<^verbatim>\<open>re.match(pattern, string)\<close>: the pattern must match at position 0 (not necessarily
  to the end); \<^verbatim>\<open>None\<close> when it does not.
\<close>

definition re_match :: "regex \<Rightarrow> string \<Rightarrow> match option" where
  "re_match r s =
     (case rmatch 0 r (0, s, Map.empty) of
        [] \<Rightarrow> None
      | (pos, rest, caps) # _ \<Rightarrow>
          Some \<lparr>groups = map (group_val caps) [1 ..< Suc (ngroups r)],
                mgroupindex = groupindex r\<rparr>)"

text \<open>\<^verbatim>\<open>m.groupdict()\<close>: every named group with its value (\<^verbatim>\<open>None\<close> when absent).\<close>

definition groupdict :: "match \<Rightarrow> (string \<times> pyval) list" where
  "groupdict m = map (\<lambda>(n, i). (n, groups m ! (i - 1))) (mgroupindex m)"

section \<open>Builtins the handlers call\<close>

definition digit_val :: "char \<Rightarrow> int" where
  "digit_val c = int (of_char c) - 48"

definition digits_val :: "string \<Rightarrow> int" where
  "digits_val ds = foldl (\<lambda>n c. 10 * n + digit_val c) 0 ds"

text \<open>
  \<^verbatim>\<open>int(s)\<close> on a string, as documented: surrounding whitespace is ignored, then an
  optional sign and at least one decimal digit; anything else is a \<^verbatim>\<open>ValueError\<close>.
  Python integers are unbounded.
\<close>

definition int_of_string :: "string \<Rightarrow> exc + int" where
  "int_of_string s =
     (let t = strip s;
          neg = (t \<noteq> [] \<and> hd t = CHR ''-'');
          ds = (if t \<noteq> [] \<and> (hd t = CHR ''-'' \<or> hd t = CHR ''+'') then tl t else t)
      in if ds \<noteq> [] \<and> list_all isdigit ds
         then Inr (if neg then - digits_val ds else digits_val ds)
         else Inl ValueError)"

text \<open>\<^verbatim>\<open>int(x)\<close>: \<^verbatim>\<open>int(None)\<close> is a \<^verbatim>\<open>TypeError\<close>, not a \<^verbatim>\<open>ValueError\<close>.\<close>

fun py_int :: "pyval \<Rightarrow> exc + int" where
  "py_int (PyStr s) = int_of_string s"
| "py_int (PyInt n) = Inr n"
| "py_int (PyBool b) = Inr (if b then 1 else 0)"
| "py_int PyNone = Inl TypeError"

fun show_nat :: "nat \<Rightarrow> string" where
  "show_nat n =
     (if n < 10 then [char_of (48 + n)]
      else show_nat (n div 10) @ [char_of (48 + n mod 10)])"

definition show_int :: "int \<Rightarrow> string" where
  "show_int i = (if i < 0 then CHR ''-'' # show_nat (nat (- i)) else show_nat (nat i))"

text \<open>What \<^verbatim>\<open>"%s" % x\<close> puts in place of \<^verbatim>\<open>%s\<close>.\<close>

fun py_str :: "pyval \<Rightarrow> string" where
  "py_str (PyStr s) = s"
| "py_str (PyInt n) = show_int n"
| "py_str (PyBool b) = (if b then ''True'' else ''False'')"
| "py_str PyNone = ''None''"

section \<open>Commands\<close>

text \<open>
  The class attribute \<^verbatim>\<open>command\<close> of a subclass of \<^verbatim>\<open>Command\<close>: \<open>NoAttr\<close> when
  \<^verbatim>\<open>hasattr(command_type, "command")\<close> is false, \<open>AttrNone\<close> when the subclass keeps the
  \<^verbatim>\<open>command = None\<close> it inherits from \<^verbatim>\<open>Command\<close>, \<open>BadPattern\<close> for a string that
  \<^verbatim>\<open>re\<close> cannot compile, \<open>Pattern r\<close> for a regular expression.
\<close>

datatype command_attr = NoAttr | AttrNone | BadPattern | Pattern regex

text \<open>
  A subclass of \<^verbatim>\<open>Command\<close>: its class name, its \<^verbatim>\<open>command\<close> and \<^verbatim>\<open>help_text\<close>
  attributes and its \<^verbatim>\<open>execute\<close> method. The method gets \<^verbatim>\<open>self.command_text\<close>, the
  positional arguments, the keyword arguments and the objects \<^verbatim>\<open>self.user\<close>,
  \<^verbatim>\<open>self.world\<close> and \<^verbatim>\<open>self.controller\<close> refer to (the context \<open>'c\<close>); it returns a
  value or raises, and in both cases leaves a context behind.
\<close>

record 'c command_type =
  name :: string
  command :: command_attr
  help_text :: "string option"
  exec :: "string \<Rightarrow> pyval list \<Rightarrow> (string \<times> pyval) list \<Rightarrow> 'c \<Rightarrow> (exc + pyval) \<times> 'c"

text \<open>
  An instance made by \<^verbatim>\<open>Command.__init__\<close>: its class and \<^verbatim>\<open>self.command_text\<close>. The
  three references it also stores are to the context that \<open>execute\<close> threads.
\<close>

record 'c cmd_instance =
  cls :: "'c command_type"
  command_text :: string

section \<open>\<^verbatim>\<open>CommandParser\<close>\<close>

text \<open>
  The loop of \<^verbatim>\<open>parse\<close> over \<^verbatim>\<open>Command.__subclasses__()\<close>, a list in the order the
  classes were defined. \<^verbatim>\<open>re.match(None, s)\<close> raises \<^verbatim>\<open>TypeError\<close>, and
  \<^verbatim>\<open>re.match\<close> on a string that is no regular expression raises \<^verbatim>\<open>re.error\<close>.
  The arguments \<^verbatim>\<open>controller\<close>, \<^verbatim>\<open>user\<close> and \<^verbatim>\<open>world\<close> of \<^verbatim>\<open>parse\<close> are only
  stored in the instance, so \<open>parse\<close> does not take them: the objects they refer to are
  the context given to \<open>execute\<close>.
\<close>

fun parse_loop :: "'c command_type list \<Rightarrow> string \<Rightarrow> exc + ('c cmd_instance \<times> match) option" where
  "parse_loop [] stripped = Inr None"
| "parse_loop (command_type # rest) stripped =
     (case command command_type of
        NoAttr \<Rightarrow> Inl (PlainException ''Subclasses of Command must have a command attribute.'')
      | AttrNone \<Rightarrow> Inl TypeError
      | BadPattern \<Rightarrow> Inl ReError
      | Pattern cmd_regex \<Rightarrow>
          (case re_match cmd_regex stripped of
             Some m \<Rightarrow> Inr (Some (\<lparr>cls = command_type, command_text = stripped\<rparr>, m))
           | None \<Rightarrow> parse_loop rest stripped))"

definition parse :: "'c command_type list \<Rightarrow> string \<Rightarrow> exc + ('c cmd_instance \<times> match) option" where
  "parse subclasses text =
     (if startswith_slash text
      then parse_loop subclasses (strip (from1 text))
      else Inr None)"

text \<open>
  The arguments \<^verbatim>\<open>execute\<close> builds from the match: \<^verbatim>\<open>args\<close> is
  \<^verbatim>\<open>filter(lambda a: a is not None, match.groups())\<close>, \<^verbatim>\<open>kwargs\<close> the items of
  \<^verbatim>\<open>match.groupdict()\<close> whose value is not \<^verbatim>\<open>None\<close>. The dictionary is an association
  list with one entry per group name.
\<close>

definition call_args :: "match \<Rightarrow> pyval list" where
  "call_args m = filter (\<lambda>a. a \<noteq> PyNone) (groups m)"

definition call_kwargs :: "match \<Rightarrow> (string \<times> pyval) list" where
  "call_kwargs m = filter (\<lambda>(key, v). v \<noteq> PyNone) (groupdict m)"

text \<open>
  What \<^verbatim>\<open>execute\<close> does with the outcome of the handler: an exception goes through,
  \<^verbatim>\<open>None\<close> becomes \<^verbatim>\<open>COMMAND_HANDLED\<close>, any other value is returned as it is.
\<close>

definition handled :: "(exc + pyval) \<times> 'c \<Rightarrow> (exc + pyval) \<times> 'c" where
  "handled outcome =
     (case outcome of
        (Inl e, ctx') \<Rightarrow> (Inl e, ctx')
      | (Inr ret, ctx') \<Rightarrow>
          if ret = PyNone then (Inr COMMAND_HANDLED, ctx') else (Inr ret, ctx'))"

definition execute ::
  "'c command_type list \<Rightarrow> string \<Rightarrow> 'c \<Rightarrow> (exc + pyval) \<times> 'c" where
  "execute subclasses text ctx =
     (case parse subclasses text of
        Inl e \<Rightarrow> (Inl e, ctx)
      | Inr (Some (cmd, m)) \<Rightarrow>
          (let args = call_args m; kwargs = call_kwargs m
           in handled (exec (cls cmd) (command_text cmd) args kwargs ctx))
      | Inr None \<Rightarrow>
          if startswith_slash text
          then (Inl (UnknownCommandException text None), ctx)
          else (Inr COMMAND_NOT_HANDLED, ctx))"

text \<open>
  The base class: \<^verbatim>\<open>command = None\<close>, \<^verbatim>\<open>help_text = None\<close>, and an \<^verbatim>\<open>execute\<close> that
  does nothing. \<open>plain_subclass n\<close> is \<^verbatim>\<open>class n(Command): pass\<close>, which inherits all
  three.
\<close>

definition Command_execute ::
  "string \<Rightarrow> pyval list \<Rightarrow> (string \<times> pyval) list \<Rightarrow> 'c \<Rightarrow> (exc + pyval) \<times> 'c" where
  "Command_execute self_text args kwargs ctx = (Inr PyNone, ctx)"

definition plain_subclass :: "string \<Rightarrow> 'c command_type" where
  "plain_subclass n =
     \<lparr>name = n, command = AttrNone, help_text = None, exec = Command_execute\<rparr>"

section \<open>The two commands of the module\<close>

text \<open>
  The context the handlers work on: \<^verbatim>\<open>user\<close>, \<^verbatim>\<open>world\<close> and \<^verbatim>\<open>controller\<close>, each
  \<^verbatim>\<open>None\<close> by default in \<^verbatim>\<open>parse\<close> and \<^verbatim>\<open>execute\<close>. The world is never looked at.
\<close>

record controller =
  time_of_day :: pyval

record ('u, 'w) execution_context =
  user :: "'u option"
  world :: 'w
  controller :: "controller option"

text \<open>
  How a call \<^verbatim>\<open>f(*args, **kwargs)\<close> fills the parameter \<open>p\<close> that stands at position
  \<open>i\<close> after \<^verbatim>\<open>self\<close>: from \<^verbatim>\<open>args\<close> when there are enough of them (a keyword of the
  same name is then a \<^verbatim>\<open>TypeError\<close>), else from \<^verbatim>\<open>kwargs\<close>, else not at all.
\<close>

definition bind_param ::
  "string \<Rightarrow> nat \<Rightarrow> pyval list \<Rightarrow> (string \<times> pyval) list \<Rightarrow> exc + pyval option" where
  "bind_param p i args kwargs =
     (if i < length args
      then (if map_of kwargs p \<noteq> None then Inl TypeError else Inr (Some (args ! i)))
      else Inr (map_of kwargs p))"

text \<open>
  \<^verbatim>\<open>GiveBlockCommand\<close>, pattern \<^verbatim>\<open>^give (\d+(?:\.\d+)?)\s*(\d+)?$\<close>. Python's \<^verbatim>\<open>float\<close>
  and the inventory's \<^verbatim>\<open>add_item\<close> are not part of the module: they are the parameters
  \<open>py_float\<close> and \<open>add_item\<close>.
\<close>

definition GiveBlockCommand_command :: regex where
  "GiveBlockCommand_command =
     seqs [Bol, lit ''give '',
           Group (Seq (Plus Digit) (Opt (Seq (Atom (Chr CHR ''.'')) (Plus Digit)))),
           Star Space,
           Opt (Group (Plus Digit)),
           Eol]"

text \<open>The \<^verbatim>\<open>except KeyError\<close> and \<^verbatim>\<open>except ValueError\<close> clauses of the handler.\<close>

definition GiveBlockCommand_except :: "string \<Rightarrow> pyval \<Rightarrow> exc \<Rightarrow> exc" where
  "GiveBlockCommand_except self_text block_id e =
     (if e = KeyError
      then CommandException self_text (Some (''ID '' @ py_str block_id @ '' unknown.''))
      else if e = ValueError
      then CommandException self_text
             (Some ''ID should be a number. Amount must be an integer.'')
      else e)"

text \<open>
  The body of \<^verbatim>\<open>GiveBlockCommand.execute\<close>, once \<^verbatim>\<open>block_id\<close> and \<^verbatim>\<open>amount\<close> are
  bound: \<^verbatim>\<open>self.user.inventory.add_item\<close> is looked up first, then the arguments
  \<^verbatim>\<open>float(block_id)\<close> and \<^verbatim>\<open>int(amount)\<close> are evaluated, then the call is made.
\<close>

definition GiveBlockCommand_body ::
  "(pyval \<Rightarrow> exc + 'f) \<Rightarrow> ('f \<Rightarrow> int \<Rightarrow> 'u \<Rightarrow> (exc + pyval) \<times> 'u) \<Rightarrow>
   string \<Rightarrow> pyval \<Rightarrow> pyval \<Rightarrow> ('u, 'w) execution_context \<Rightarrow> (exc + pyval) \<times> ('u, 'w) execution_context" where
  "GiveBlockCommand_body py_float add_item self_text block_id amount ctx =
     (case user ctx of
        None \<Rightarrow> (Inl AttributeError, ctx)
      | Some u \<Rightarrow>
          (case py_float block_id of
             Inl e \<Rightarrow> (Inl (GiveBlockCommand_except self_text block_id e), ctx)
           | Inr f \<Rightarrow>
               (case py_int amount of
                  Inl e \<Rightarrow> (Inl (GiveBlockCommand_except self_text block_id e), ctx)
                | Inr q \<Rightarrow>
                    (case add_item f q u of
                       (Inl e, u') \<Rightarrow>
                         (Inl (GiveBlockCommand_except self_text block_id e),
                          ctx\<lparr>user := Some u'\<rparr>)
                     | (Inr r, u') \<Rightarrow> (Inr PyNone, ctx\<lparr>user := Some u'\<rparr>)))))"

text \<open>\<^verbatim>\<open>def execute(self, block_id, amount=1, *args, **kwargs)\<close>.\<close>

definition GiveBlockCommand_execute ::
  "(pyval \<Rightarrow> exc + 'f) \<Rightarrow> ('f \<Rightarrow> int \<Rightarrow> 'u \<Rightarrow> (exc + pyval) \<times> 'u) \<Rightarrow>
   string \<Rightarrow> pyval list \<Rightarrow> (string \<times> pyval) list \<Rightarrow>
   ('u, 'w) execution_context \<Rightarrow> (exc + pyval) \<times> ('u, 'w) execution_context" where
  "GiveBlockCommand_execute py_float add_item self_text args kwargs ctx =
     (if map_of kwargs ''self'' \<noteq> None then (Inl TypeError, ctx)
      else case bind_param ''block_id'' 0 args kwargs of
        Inl e \<Rightarrow> (Inl e, ctx)
      | Inr None \<Rightarrow> (Inl TypeError, ctx)
      | Inr (Some block_id) \<Rightarrow>
          (case bind_param ''amount'' 1 args kwargs of
             Inl e \<Rightarrow> (Inl e, ctx)
           | Inr amount \<Rightarrow>
               GiveBlockCommand_body py_float add_item self_text block_id
                 (case amount of None \<Rightarrow> PyInt 1 | Some a \<Rightarrow> a) ctx))"

definition GiveBlockCommand ::
  "(pyval \<Rightarrow> exc + 'f) \<Rightarrow> ('f \<Rightarrow> int \<Rightarrow> 'u \<Rightarrow> (exc + pyval) \<times> 'u) \<Rightarrow>
   ('u, 'w) execution_context command_type" where
  "GiveBlockCommand py_float add_item =
     \<lparr>name = ''GiveBlockCommand'',
      command = Pattern GiveBlockCommand_command,
      help_text = Some ''give <block_id> [amount]: Give a specified amount (default of 1) of the item to the player'',
      exec = GiveBlockCommand_execute py_float add_item\<rparr>"

text \<open>\<^verbatim>\<open>SetTimeCommand\<close>, pattern \<^verbatim>\<open>^time set (\d+)$\<close>.\<close>

definition SetTimeCommand_command :: regex where
  "SetTimeCommand_command = seqs [Bol, lit ''time set '', Group (Plus Digit), Eol]"

definition SetTimeCommand_except :: "string \<Rightarrow> exc \<Rightarrow> exc" where
  "SetTimeCommand_except self_text e =
     (if e = ValueError
      then CommandException self_text (Some ''Time should be a number between 0 and 24'')
      else e)"

definition SetTimeCommand_body ::
  "string \<Rightarrow> pyval \<Rightarrow> ('u, 'w) execution_context \<Rightarrow> (exc + pyval) \<times> ('u, 'w) execution_context" where
  "SetTimeCommand_body self_text time ctx =
     (case py_int time of
        Inl e \<Rightarrow> (Inl (SetTimeCommand_except self_text e), ctx)
      | Inr tod \<Rightarrow>
          if 0 \<le> tod \<and> tod \<le> 24
          then (case controller ctx of
                  None \<Rightarrow> (Inl (SetTimeCommand_except self_text AttributeError), ctx)
                | Some c \<Rightarrow> (Inr PyNone, ctx\<lparr>controller := Some (c\<lparr>time_of_day := PyInt tod\<rparr>)\<rparr>))
          else (Inl (SetTimeCommand_except self_text ValueError), ctx))"

text \<open>\<^verbatim>\<open>def execute(self, time, *args, **kwargs)\<close>.\<close>

definition SetTimeCommand_execute ::
  "string \<Rightarrow> pyval list \<Rightarrow> (string \<times> pyval) list \<Rightarrow>
   ('u, 'w) execution_context \<Rightarrow> (exc + pyval) \<times> ('u, 'w) execution_context" where
  "SetTimeCommand_execute self_text args kwargs ctx =
     (if map_of kwargs ''self'' \<noteq> None then (Inl TypeError, ctx)
      else case bind_param ''time'' 0 args kwargs of
        Inl e \<Rightarrow> (Inl e, ctx)
      | Inr None \<Rightarrow> (Inl TypeError, ctx)
      | Inr (Some time) \<Rightarrow> SetTimeCommand_body self_text time ctx)"

definition SetTimeCommand :: "('u, 'w) execution_context command_type" where
  "SetTimeCommand =
     \<lparr>name = ''SetTimeCommand'',
      command = Pattern SetTimeCommand_command,
      help_text = Some ''time set <number>: Set the time of day 00-24'',
      exec = SetTimeCommand_execute\<rparr>"

text \<open>\<^verbatim>\<open>Command.__subclasses__()\<close> for the module as it stands, in definition order.\<close>

definition Command_subclasses ::
  "(pyval \<Rightarrow> exc + 'f) \<Rightarrow> ('f \<Rightarrow> int \<Rightarrow> 'u \<Rightarrow> (exc + pyval) \<times> 'u) \<Rightarrow>
   ('u, 'w) execution_context command_type list" where
  "Command_subclasses py_float add_item = [GiveBlockCommand py_float add_item, SetTimeCommand]"

section \<open>Example commands and contexts\<close>

text \<open>
  \<^verbatim>\<open>needle in haystack\<close> on strings, and the test whether an outcome is a
  \<^verbatim>\<open>CommandException\<close> whose message mentions a given text.
\<close>

fun contains :: "string \<Rightarrow> string \<Rightarrow> bool" where
  "contains needle [] = (needle = [])"
| "contains needle (c # cs) = (take (length needle) (c # cs) = needle \<or> contains needle cs)"

definition fails_mentioning :: "string \<Rightarrow> (exc + pyval) \<times> 'c \<Rightarrow> bool" where
  "fails_mentioning needle outcome =
     (case fst outcome of
        Inl e \<Rightarrow>
          is_CommandException e \<and>
          (case message_of e of None \<Rightarrow> False | Some msg \<Rightarrow> contains needle msg)
      | Inr v \<Rightarrow> False)"

text \<open>
  A command that does nothing but record its call: the class name, the positional and
  the keyword arguments it was given are appended to the context, which is the list of
  calls made so far. In Python its method is \<^verbatim>\<open>def execute(self, *args, **kwargs)\<close>.
\<close>

type_synonym call_log = "(string \<times> pyval list \<times> (string \<times> pyval) list) list"

definition recording_execute ::
  "string \<Rightarrow> string \<Rightarrow> pyval list \<Rightarrow> (string \<times> pyval) list \<Rightarrow> call_log \<Rightarrow>
   (exc + pyval) \<times> call_log" where
  "recording_execute n self_text args kwargs calls = (Inr PyNone, calls @ [(n, args, kwargs)])"

definition recording_command :: "string \<Rightarrow> regex \<Rightarrow> call_log command_type" where
  "recording_command n r =
     \<lparr>name = n, command = Pattern r, help_text = None, exec = recording_execute n\<rparr>"

text \<open>
  The two overlapping patterns \<^verbatim>\<open>foo.*\<close> and \<^verbatim>\<open>foobar\<close>, and a pattern with a
  positional and a named group, \<^verbatim>\<open>^tp (\d+) (?P<y>\d+)$\<close>.
\<close>

definition foo_any :: regex where
  "foo_any = Seq (lit ''foo'') (Star AnyChar)"

definition foobar :: regex where
  "foobar = lit ''foobar''"

definition tp_command :: regex where
  "tp_command =
     seqs [Bol, lit ''tp '', Group (Plus Digit), Atom (Chr CHR '' ''),
           Named ''y'' (Plus Digit), Eol]"

text \<open>
  Two patterns with optional groups: \<^verbatim>\<open>^go(?: (a))? (?P<n>\d+)(?: (?P<y>\d+))?$\<close>,
  whose first and last groups are optional, and \<^verbatim>\<open>^go(?: (a))? (?P<y>\d+)$\<close>, whose
  named group follows an optional one.
\<close>

definition go_command :: regex where
  "go_command =
     seqs [Bol, lit ''go'', Opt (Seq (Atom (Chr CHR '' '')) (Group (Atom (Chr CHR ''a'')))),
           Atom (Chr CHR '' ''), Named ''n'' (Plus Digit),
           Opt (Seq (Atom (Chr CHR '' '')) (Named ''y'' (Plus Digit))), Eol]"

definition go_named :: regex where
  "go_named =
     seqs [Bol, lit ''go'', Opt (Seq (Atom (Chr CHR '' '')) (Group (Atom (Chr CHR ''a'')))),
           Atom (Chr CHR '' ''), Named ''y'' (Plus Digit), Eol]"

text \<open>
  An environment for the two commands of the module, for examples only: item numbers
  are whole numbers, so the conversion of the identifier is the one of \<open>py_int\<close>
  (\<^verbatim>\<open>float("5")\<close> is the number 5); the inventory is the list of the (item, quantity)
  pairs added, and knows the items from 1 on.
\<close>

definition example_float :: "pyval \<Rightarrow> exc + int" where
  "example_float v = py_int v"

definition example_add_item ::
  "int \<Rightarrow> int \<Rightarrow> (int \<times> int) list \<Rightarrow> (exc + pyval) \<times> (int \<times> int) list" where
  "example_add_item item quantity items =
     (if item < 1 then (Inl KeyError, items) else (Inr PyNone, items @ [(item, quantity)]))"

definition example_context :: "((int \<times> int) list, unit) execution_context" where
  "example_context =
     \<lparr>user = Some [], world = (), controller = Some \<lparr>time_of_day = PyInt 12\<rparr>\<rparr>"

definition example_subclasses :: "((int \<times> int) list, unit) execution_context command_type list" where
  "example_subclasses = Command_subclasses example_float example_add_item"

section \<open>Lemmas on the matcher and the dispatcher\<close>

lemmas eval_defs =
  execute_def parse_def startswith_slash_def from1_def strip_def isspace_def isdigit_def
  re_match_def seqs_def lit_def group_val_def groupindex_def call_args_def call_kwargs_def
  groupdict_def handled_def bind_param_def Command_subclasses_def GiveBlockCommand_def
  SetTimeCommand_def GiveBlockCommand_command_def SetTimeCommand_command_def
  SetTimeCommand_execute_def SetTimeCommand_body_def SetTimeCommand_except_def
  GiveBlockCommand_execute_def int_of_string_def digits_val_def digit_val_def
  COMMAND_HANDLED_def COMMAND_NOT_HANDLED_def

lemmas example_defs =
  example_subclasses_def example_context_def example_float_def example_add_item_def
  recording_command_def recording_execute_def foo_any_def foobar_def tp_command_def
  go_command_def go_named_def
  plain_subclass_def Command_execute_def GiveBlockCommand_body_def
  GiveBlockCommand_except_def fails_mentioning_def

lemma parse_loop_no_match:
  "\<forall>ct \<in> set cts. \<exists>r. command ct = Pattern r \<and> re_match r s = None \<Longrightarrow>
   parse_loop cts s = Inr None"
  by (induction cts) auto

lemma parse_loop_skip:
  assumes "\<forall>c \<in> set pre. \<exists>r. command c = Pattern r \<and> re_match r s = None"
  shows "parse_loop (pre @ ct # post) s = parse_loop (ct # post) s"
  using assms by (induction pre) auto

lemma parse_loop_Some:
  "parse_loop cts s = Inr (Some (cmd, m)) \<Longrightarrow>
   \<exists>r. command (cls cmd) = Pattern r \<and> re_match r s = Some m \<and>
       cls cmd \<in> set cts \<and> command_text cmd = s"
  by (induction cts) (auto split: command_attr.splits option.splits)

lemma parse_Some:
  assumes "parse subclasses text = Inr (Some (cmd, m))"
  shows "startswith_slash text \<and>
     (\<exists>r. command (cls cmd) = Pattern r \<and> re_match r (strip (from1 text)) = Some m) \<and>
     cls cmd \<in> set subclasses \<and> command_text cmd = strip (from1 text)"
  using assms parse_loop_Some[of subclasses "strip (from1 text)" cmd m]
  by (auto simp: parse_def split: if_splits)

lemma execute_parsed:
  assumes "parse subclasses text = Inr (Some (cmd, m))"
  shows "execute subclasses text ctx =
           handled (exec (cls cmd) (command_text cmd) (call_args m) (call_kwargs m) ctx)"
  using assms by (simp add: execute_def)

text \<open>
  Filtering keeps the order: an element that passes the test lands at the position
  given by the number of elements before it that pass.
\<close>

lemma filter_nth_shift:
  assumes "i < length gs" and "P (gs ! i)"
  shows "filter P gs ! length (filter P (take i gs)) = gs ! i"
proof -
  have "gs = take i gs @ gs ! i # drop (Suc i) gs"
    using assms(1) by (simp add: id_take_nth_drop)
  then have "filter P gs = filter P (take i gs) @ filter P (gs ! i # drop (Suc i) gs)"
    by (metis filter_append)
  also have "\<dots> = filter P (take i gs) @ gs ! i # filter P (drop (Suc i) gs)"
    using assms(2) by simp
  finally show ?thesis by (simp add: nth_append)
qed

lemma filter_take_all:
  assumes "\<forall>j < i. P (gs ! j)" and "i \<le> length gs"
  shows "length (filter P (take i gs)) = i"
proof -
  have "\<forall>x \<in> set (take i gs). P x"
    using assms by (auto simp: in_set_conv_nth)
  then have "filter P (take i gs) = take i gs" by simp
  then show ?thesis using assms(2) by simp
qed

text \<open>Group numbers of a pattern lie between 1 and the number of its groups.\<close>

lemma groupindex_from_range:
  "(n, i) \<in> set (groupindex_from k r) \<Longrightarrow> k < i \<and> i \<le> k + ngroups r"
proof (induction r arbitrary: k)
  case (Seq r1 r2)
  then show ?case by fastforce
next
  case (Alt r1 r2)
  then show ?case by fastforce
next
  case (Named x r)
  then show ?case by fastforce
next
  case (Group r)
  then show ?case by fastforce
qed auto

lemma re_match_shape:
  assumes "re_match r s = Some m"
  shows "length (groups m) = ngroups r \<and> mgroupindex m = groupindex r"
  using assms by (auto simp: re_match_def split: list.splits)

lemma map_of_kwargs:
  assumes "distinct (map fst gi)" and "(n, i) \<in> set gi" and "gs ! (i - 1) \<noteq> PyNone"
  shows "map_of (filter (\<lambda>(key, v). v \<noteq> PyNone) (map (\<lambda>(n, i). (n, gs ! (i - 1))) gi)) n
         = Some (gs ! (i - 1))"
  using assms
proof (induction gi)
  case Nil
  then show ?case by simp
next
  case (Cons a gi)
  obtain n' i' where a: "a = (n', i')" by (cases a)
  show ?case
  proof (cases "n' = n")
    case True
    with Cons.prems a have "i' = i" by (auto simp: image_iff)
    with True a Cons.prems show ?thesis by simp
  next
    case False
    with Cons a show ?thesis by auto
  qed
qed

text \<open>
  The keyword arguments: no value is \<^verbatim>\<open>None\<close>, every entry is a named group with the
  value it captured, and a named group that took no part has no entry.
\<close>

lemma kwargs_no_None: "PyNone \<notin> snd ` set (call_kwargs m)"
  by (auto simp: call_kwargs_def)

lemma kwargs_from_groups:
  assumes "map_of (call_kwargs m) n = Some v"
  shows "v \<noteq> PyNone \<and> (\<exists>i. (n, i) \<in> set (mgroupindex m) \<and> groups m ! (i - 1) = v)"
proof -
  from assms have "(n, v) \<in> set (call_kwargs m)" by (rule map_of_SomeD)
  then show ?thesis by (auto simp: call_kwargs_def groupdict_def)
qed

lemma kwargs_absent_key:
  assumes "distinct (map fst (mgroupindex m))"
    and "(n, i) \<in> set (mgroupindex m)"
    and "groups m ! (i - 1) = PyNone"
  shows "map_of (call_kwargs m) n = None"
proof (cases "map_of (call_kwargs m) n")
  case None
  then show ?thesis .
next
  case (Some v)
  from kwargs_from_groups [OF Some] obtain i'
    where v: "v \<noteq> PyNone" and i': "(n, i') \<in> set (mgroupindex m)" "groups m ! (i' - 1) = v"
    by blast
  from assms(1) i'(1) assms(2) have "i' = i" by (rule eq_key_imp_eq_value)
  with i'(2) assms(3) v show ?thesis by simp
qed

text \<open>What the two patterns of the module give on the texts of the examples.\<close>

lemma give_5_match:
  "re_match GiveBlockCommand_command ''give 5'' =
     Some \<lparr>groups = [PyStr ''5'', PyNone], mgroupindex = []\<rparr>"
  by (simp add: eval_defs)

lemma give_5_3_match:
  "re_match GiveBlockCommand_command ''give 5 3'' =
     Some \<lparr>groups = [PyStr ''5'', PyStr ''3''], mgroupindex = []\<rparr>"
  by (simp add: eval_defs)

lemma give_abc_no_match:
  "re_match GiveBlockCommand_command ''give abc'' = None"
  by (simp add: eval_defs)

lemma time_set_noon_no_match:
  "re_match SetTimeCommand_command ''time set noon'' = None"
  by (simp add: eval_defs)

section \<open>The dispatcher\<close>

text \<open>
  C1. A text that starts with \<^verbatim>\<open>/\<close>, when every registered class has a pattern (as
  the classes of the module have) and none of the patterns matches the text without its
  first character and surrounding whitespace: \<^verbatim>\<open>execute\<close> raises
  \<^verbatim>\<open>UnknownCommandException\<close>, whose \<^verbatim>\<open>command_text\<close> is the text as it was given,
  sentinel included, and leaves the context as it was.
\<close>

theorem unknown_command:
  assumes "startswith_slash text"
    and "\<forall>ct \<in> set subclasses.
           \<exists>r. command ct = Pattern r \<and> re_match r (strip (from1 text)) = None"
  shows "execute subclasses text ctx = (Inl (UnknownCommandException text None), ctx)"
  using assms by (simp add: execute_def parse_def parse_loop_no_match)

theorem unknown_command_witness:
  "startswith_slash ''/ fly  '' \<and>
   strip (from1 ''/ fly  '') = ''fly'' \<and>
   example_subclasses = [GiveBlockCommand example_float example_add_item, SetTimeCommand] \<and>
   command (GiveBlockCommand example_float example_add_item) = Pattern GiveBlockCommand_command \<and>
   re_match GiveBlockCommand_command ''fly'' = None \<and>
   command (SetTimeCommand :: ((int \<times> int) list, unit) execution_context command_type)
     = Pattern SetTimeCommand_command \<and>
   re_match SetTimeCommand_command ''fly'' = None \<and>
   execute example_subclasses ''/ fly  '' example_context =
     (Inl (UnknownCommandException ''/ fly  '' None), example_context)"
proof -
  have h1: "startswith_slash ''/ fly  ''"
    by (simp add: startswith_slash_def)
  have s: "strip (from1 ''/ fly  '') = ''fly''"
    by (simp add: from1_def strip_def isspace_def)
  have g: "command (GiveBlockCommand example_float example_add_item)
             = Pattern GiveBlockCommand_command"
    and t: "command (SetTimeCommand :: ((int \<times> int) list, unit) execution_context command_type)
             = Pattern SetTimeCommand_command"
    by (simp_all add: GiveBlockCommand_def SetTimeCommand_def)
  have ng: "re_match GiveBlockCommand_command ''fly'' = None"
    and nt: "re_match SetTimeCommand_command ''fly'' = None"
    by (simp_all add: eval_defs)
  have l: "example_subclasses = [GiveBlockCommand example_float example_add_item, SetTimeCommand]"
    by (simp add: example_subclasses_def Command_subclasses_def)
  have h2: "\<forall>ct \<in> set example_subclasses.
      \<exists>r. command ct = Pattern r \<and> re_match r (strip (from1 ''/ fly  '')) = None"
    by (simp add: l s g t ng nt)
  from unknown_command [OF h1 h2, of example_context] h1 s l g t ng nt
  show ?thesis by simp
qed

text \<open>
  C2. A text that does not start with \<^verbatim>\<open>/\<close>: \<^verbatim>\<open>parse\<close> returns \<^verbatim>\<open>None\<close> without
  looking at any class, and \<^verbatim>\<open>execute\<close> returns \<^verbatim>\<open>COMMAND_NOT_HANDLED\<close> with the
  context untouched, whatever the registered classes, their patterns and their handlers
  are: no handler runs.
\<close>

theorem not_a_command:
  assumes "\<not> startswith_slash text"
  shows "parse subclasses text = Inr None \<and>
         execute subclasses text ctx = (Inr COMMAND_NOT_HANDLED, ctx)"
  using assms by (simp add: execute_def parse_def)

theorem not_a_command_witness:
  "\<not> startswith_slash ''give 5 /3'' \<and>
   parse example_subclasses ''give 5 /3'' = Inr None \<and>
   execute example_subclasses ''give 5 /3'' example_context =
     (Inr COMMAND_NOT_HANDLED, example_context)"
proof -
  have h: "\<not> startswith_slash ''give 5 /3''"
    by (simp add: startswith_slash_def)
  from h not_a_command [OF h, of example_subclasses example_context] show ?thesis by simp
qed

text \<open>
  C3. \<^verbatim>\<open>parse\<close> goes through the classes in the order of the list. When the classes
  before \<open>ct\<close> do not match the stripped text and the pattern of \<open>ct\<close> does, \<^verbatim>\<open>parse\<close>
  returns an instance of \<open>ct\<close> with that match, whatever comes after \<open>ct\<close> in the list,
  and \<^verbatim>\<open>execute\<close> runs the handler of \<open>ct\<close>. The witness is the example of the
  specification: \<^verbatim>\<open>foo.*\<close> registered before \<^verbatim>\<open>foobar\<close>, text \<^verbatim>\<open>/foobar\<close>.
\<close>

theorem first_match_wins:
  assumes "startswith_slash text"
    and "\<forall>c \<in> set pre. \<exists>r. command c = Pattern r \<and> re_match r (strip (from1 text)) = None"
    and "command ct = Pattern r"
    and "re_match r (strip (from1 text)) = Some m"
  shows "parse (pre @ ct # post) text =
           Inr (Some (\<lparr>cls = ct, command_text = strip (from1 text)\<rparr>, m)) \<and>
         execute (pre @ ct # post) text ctx =
           handled (exec ct (strip (from1 text)) (call_args m) (call_kwargs m) ctx)"
  using assms by (simp add: execute_def parse_def parse_loop_skip)

theorem first_match_wins_witness:
  "startswith_slash ''/foobar'' \<and>
   command (recording_command ''A'' foo_any) = Pattern foo_any \<and>
   re_match foo_any (strip (from1 ''/foobar'')) = Some \<lparr>groups = [], mgroupindex = []\<rparr> \<and>
   re_match foobar (strip (from1 ''/foobar'')) = Some \<lparr>groups = [], mgroupindex = []\<rparr> \<and>
   parse ([] @ recording_command ''A'' foo_any # [recording_command ''B'' foobar]) ''/foobar'' =
     Inr (Some (\<lparr>cls = recording_command ''A'' foo_any, command_text = ''foobar''\<rparr>,
                \<lparr>groups = [], mgroupindex = []\<rparr>)) \<and>
   execute ([] @ recording_command ''A'' foo_any # [recording_command ''B'' foobar]) ''/foobar'' [] =
     (Inr COMMAND_HANDLED, [(''A'', [], [])])"
proof -
  have h1: "startswith_slash ''/foobar''"
    by (simp add: startswith_slash_def)
  have h2: "\<forall>c \<in> set ([] :: call_log command_type list).
      \<exists>r. command c = Pattern r \<and> re_match r (strip (from1 ''/foobar'')) = None"
    by simp
  have h3: "command (recording_command ''A'' foo_any) = Pattern foo_any"
    by (simp add: recording_command_def)
  have s: "strip (from1 ''/foobar'') = ''foobar''"
    by (simp add: eval_defs)
  have h4: "re_match foo_any (strip (from1 ''/foobar'')) = Some \<lparr>groups = [], mgroupindex = []\<rparr>"
    by (simp add: eval_defs example_defs)
  have h5: "re_match foobar (strip (from1 ''/foobar'')) = Some \<lparr>groups = [], mgroupindex = []\<rparr>"
    by (simp add: eval_defs example_defs)
  have run: "handled (exec (recording_command ''A'' foo_any) ''foobar''
       (call_args \<lparr>groups = [], mgroupindex = []\<rparr>) (call_kwargs \<lparr>groups = [], mgroupindex = []\<rparr>) [])
     = (Inr COMMAND_HANDLED, [(''A'', [], [])])"
    by (simp add: eval_defs example_defs)
  from first_match_wins [OF h1 h2 h3 h4, of "[recording_command ''B'' foobar]" "[]"]
  show ?thesis using h1 h3 h4 h5 s run by simp
qed

text \<open>With the two classes registered the other way round, \<^verbatim>\<open>foobar\<close> wins.\<close>

lemma later_registration_loses:
  "execute [recording_command ''B'' foobar, recording_command ''A'' foo_any] ''/foobar'' [] =
     (Inr COMMAND_HANDLED, [(''B'', [], [])])"
  by (simp add: eval_defs example_defs)

section \<open>The two commands\<close>

text \<open>
  C4. With the classes of the module registered, and a controller in the context,
  \<^verbatim>\<open>/time set 0\<close> and \<^verbatim>\<open>/time set 24\<close> return \<^verbatim>\<open>COMMAND_HANDLED\<close> and leave
  \<^verbatim>\<open>time_of_day\<close> at 0 and 24, nothing else changed. \<^verbatim>\<open>/time set 25\<close> raises the
  \<^verbatim>\<open>CommandException\<close> of the range check (its text is the stripped one) and changes
  nothing. \<^verbatim>\<open>time set noon\<close> does not match the pattern, so \<^verbatim>\<open>/time set noon\<close>
  raises \<^verbatim>\<open>UnknownCommandException\<close> with the original text.
\<close>

theorem time_set_boundaries:
  "execute (Command_subclasses py_float add_item) ''/time set 0'' (ctx\<lparr>controller := Some c\<rparr>)
     = (Inr COMMAND_HANDLED, ctx\<lparr>controller := Some (c\<lparr>time_of_day := PyInt 0\<rparr>)\<rparr>) \<and>
   execute (Command_subclasses py_float add_item) ''/time set 24'' (ctx\<lparr>controller := Some c\<rparr>)
     = (Inr COMMAND_HANDLED, ctx\<lparr>controller := Some (c\<lparr>time_of_day := PyInt 24\<rparr>)\<rparr>) \<and>
   execute (Command_subclasses py_float add_item) ''/time set 25'' ctx
     = (Inl (CommandException ''time set 25''
              (Some ''Time should be a number between 0 and 24'')), ctx) \<and>
   re_match SetTimeCommand_command ''time set noon'' = None \<and>
   execute (Command_subclasses py_float add_item) ''/time set noon'' ctx
     = (Inl (UnknownCommandException ''/time set noon'' None), ctx)"
proof -
  have a: "execute (Command_subclasses py_float add_item) ''/time set 0'' (ctx\<lparr>controller := Some c\<rparr>)
     = (Inr COMMAND_HANDLED, ctx\<lparr>controller := Some (c\<lparr>time_of_day := PyInt 0\<rparr>)\<rparr>)"
    by (simp add: eval_defs)
  have b: "execute (Command_subclasses py_float add_item) ''/time set 24'' (ctx\<lparr>controller := Some c\<rparr>)
     = (Inr COMMAND_HANDLED, ctx\<lparr>controller := Some (c\<lparr>time_of_day := PyInt 24\<rparr>)\<rparr>)"
    by (simp add: eval_defs)
  have c: "execute (Command_subclasses py_float add_item) ''/time set 25'' ctx
     = (Inl (CommandException ''time set 25''
              (Some ''Time should be a number between 0 and 24'')), ctx)"
    by (simp add: eval_defs)
  have d: "execute (Command_subclasses py_float add_item) ''/time set noon'' ctx
     = (Inl (UnknownCommandException ''/time set noon'' None), ctx)"
    by (simp add: eval_defs)
  from a b c d time_set_noon_no_match show ?thesis by simp
qed

text \<open>
  C5. \<^verbatim>\<open>/give 5\<close> is parsed into an instance of \<^verbatim>\<open>GiveBlockCommand\<close> with the groups
  \<^verbatim>\<open>("5", None)\<close>; its handler is called with the one positional argument \<^verbatim>\<open>"5"\<close> and
  no keyword argument, and runs its body with \<^verbatim>\<open>amount\<close> at the default, the integer 1.
  \<^verbatim>\<open>/give 5 3\<close> calls it with \<^verbatim>\<open>"5"\<close> and \<^verbatim>\<open>"3"\<close>, and the body runs with
  \<^verbatim>\<open>amount = "3"\<close>.
\<close>

theorem give_arguments:
  "parse (Command_subclasses py_float add_item) ''/give 5'' =
     Inr (Some (\<lparr>cls = GiveBlockCommand py_float add_item, command_text = ''give 5''\<rparr>,
                \<lparr>groups = [PyStr ''5'', PyNone], mgroupindex = []\<rparr>)) \<and>
   call_args \<lparr>groups = [PyStr ''5'', PyNone], mgroupindex = []\<rparr> = [PyStr ''5''] \<and>
   call_kwargs \<lparr>groups = [PyStr ''5'', PyNone], mgroupindex = []\<rparr> = [] \<and>
   execute (Command_subclasses py_float add_item) ''/give 5'' ctx =
     handled (GiveBlockCommand_execute py_float add_item ''give 5'' [PyStr ''5''] [] ctx) \<and>
   GiveBlockCommand_execute py_float add_item ''give 5'' [PyStr ''5''] [] ctx =
     GiveBlockCommand_body py_float add_item ''give 5'' (PyStr ''5'') (PyInt 1) ctx \<and>
   parse (Command_subclasses py_float add_item) ''/give 5 3'' =
     Inr (Some (\<lparr>cls = GiveBlockCommand py_float add_item, command_text = ''give 5 3''\<rparr>,
                \<lparr>groups = [PyStr ''5'', PyStr ''3''], mgroupindex = []\<rparr>)) \<and>
   call_args \<lparr>groups = [PyStr ''5'', PyStr ''3''], mgroupindex = []\<rparr> = [PyStr ''5'', PyStr ''3''] \<and>
   call_kwargs \<lparr>groups = [PyStr ''5'', PyStr ''3''], mgroupindex = []\<rparr> = [] \<and>
   execute (Command_subclasses py_float add_item) ''/give 5 3'' ctx =
     handled (GiveBlockCommand_execute py_float add_item ''give 5 3'' [PyStr ''5'', PyStr ''3''] [] ctx) \<and>
   GiveBlockCommand_execute py_float add_item ''give 5 3'' [PyStr ''5'', PyStr ''3''] [] ctx =
     GiveBlockCommand_body py_float add_item ''give 5 3'' (PyStr ''5'') (PyStr ''3'') ctx"
proof -
  have s1: "strip (from1 ''/give 5'') = ''give 5''" and s2: "strip (from1 ''/give 5 3'') = ''give 5 3''"
    by (simp_all add: from1_def strip_def isspace_def)
  have p1: "parse (Command_subclasses py_float add_item) ''/give 5'' =
     Inr (Some (\<lparr>cls = GiveBlockCommand py_float add_item, command_text = ''give 5''\<rparr>,
                \<lparr>groups = [PyStr ''5'', PyNone], mgroupindex = []\<rparr>))"
    by (simp add: parse_def startswith_slash_def s1 Command_subclasses_def give_5_match
        GiveBlockCommand_def)
  have p2: "parse (Command_subclasses py_float add_item) ''/give 5 3'' =
     Inr (Some (\<lparr>cls = GiveBlockCommand py_float add_item, command_text = ''give 5 3''\<rparr>,
                \<lparr>groups = [PyStr ''5'', PyStr ''3''], mgroupindex = []\<rparr>))"
    by (simp add: parse_def startswith_slash_def s2 Command_subclasses_def give_5_3_match
        GiveBlockCommand_def)
  have a1: "call_args \<lparr>groups = [PyStr ''5'', PyNone], mgroupindex = []\<rparr> = [PyStr ''5'']"
    and k1: "call_kwargs \<lparr>groups = [PyStr ''5'', PyNone], mgroupindex = []\<rparr> = []"
    and a2: "call_args \<lparr>groups = [PyStr ''5'', PyStr ''3''], mgroupindex = []\<rparr> = [PyStr ''5'', PyStr ''3'']"
    and k2: "call_kwargs \<lparr>groups = [PyStr ''5'', PyStr ''3''], mgroupindex = []\<rparr> = []"
    by (simp_all add: call_args_def call_kwargs_def groupdict_def)
  have e1: "execute (Command_subclasses py_float add_item) ''/give 5'' ctx =
     handled (GiveBlockCommand_execute py_float add_item ''give 5'' [PyStr ''5''] [] ctx)"
    by (simp add: execute_parsed [OF p1] a1 k1 GiveBlockCommand_def)
  have e2: "execute (Command_subclasses py_float add_item) ''/give 5 3'' ctx =
     handled (GiveBlockCommand_execute py_float add_item ''give 5 3'' [PyStr ''5'', PyStr ''3''] [] ctx)"
    by (simp add: execute_parsed [OF p2] a2 k2 GiveBlockCommand_def)
  have b1: "GiveBlockCommand_execute py_float add_item ''give 5'' [PyStr ''5''] [] ctx =
     GiveBlockCommand_body py_float add_item ''give 5'' (PyStr ''5'') (PyInt 1) ctx"
    by (simp add: GiveBlockCommand_execute_def bind_param_def)
  have b2: "GiveBlockCommand_execute py_float add_item ''give 5 3'' [PyStr ''5'', PyStr ''3''] [] ctx =
     GiveBlockCommand_body py_float add_item ''give 5 3'' (PyStr ''5'') (PyStr ''3'') ctx"
    by (simp add: GiveBlockCommand_execute_def bind_param_def)
  from p1 p2 a1 a2 k1 k2 e1 e2 b1 b2 show ?thesis by simp
qed

text \<open>
  With the example inventory, the two texts add one and three of item 5.
\<close>

lemma give_example_runs:
  "execute example_subclasses ''/give 5'' example_context =
     (Inr COMMAND_HANDLED, example_context\<lparr>user := Some [(5, 1)]\<rparr>) \<and>
   execute example_subclasses ''/give 5 3'' example_context =
     (Inr COMMAND_HANDLED, example_context\<lparr>user := Some [(5, 3)]\<rparr>)"
  by (simp add: eval_defs example_defs)

text \<open>
  The body of \<^verbatim>\<open>GiveBlockCommand.execute\<close> does raise the error that mentions
  \<^verbatim>\<open>should be a number\<close>, when \<^verbatim>\<open>float(block_id)\<close> raises \<^verbatim>\<open>ValueError\<close>.
\<close>

lemma give_handler_value_error:
  assumes "user ctx = Some u" and "py_float block_id = Inl ValueError"
  shows "fails_mentioning ''should be a number''
     (GiveBlockCommand_body py_float add_item self_text block_id amount ctx)"
  using assms
  by (simp add: GiveBlockCommand_body_def GiveBlockCommand_except_def fails_mentioning_def)

text \<open>
  C6, as stated, fails: \<^verbatim>\<open>/give abc\<close> does not reach the handler. With the classes of
  the module registered, \<^verbatim>\<open>execute\<close> raises \<^verbatim>\<open>UnknownCommandException\<close>, which has no
  message.
\<close>

theorem give_abc_counterexample:
  "execute example_subclasses ''/give abc'' example_context =
     (Inl (UnknownCommandException ''/give abc'' None), example_context) \<and>
   \<not> fails_mentioning ''should be a number''
       (execute example_subclasses ''/give abc'' example_context)"
  by (simp add: eval_defs example_defs)

text \<open>
  C6, amended. \<^verbatim>\<open>give abc\<close> does not match the pattern of \<^verbatim>\<open>GiveBlockCommand\<close>,
  which asks for digits, so \<^verbatim>\<open>/give abc\<close> raises \<^verbatim>\<open>UnknownCommandException\<close> with the
  original text and no message, for every inventory and context; the context is
  unchanged.
\<close>

theorem give_abc_unknown:
  "re_match GiveBlockCommand_command ''give abc'' = None \<and>
   execute (Command_subclasses py_float add_item) ''/give abc'' ctx =
     (Inl (UnknownCommandException ''/give abc'' None), ctx) \<and>
   message_of (UnknownCommandException ''/give abc'' None) = None"
proof -
  have "execute (Command_subclasses py_float add_item) ''/give abc'' ctx =
     (Inl (UnknownCommandException ''/give abc'' None), ctx)"
    by (simp add: eval_defs)
  with give_abc_no_match show ?thesis by simp
qed

section \<open>Classes without a usable pattern\<close>

text \<open>
  C7, as stated, fails: with \<^verbatim>\<open>class HelpCommand(Command): pass\<close> defined after the
  two classes of the module, \<^verbatim>\<open>/time set 7\<close> still runs, and \<^verbatim>\<open>/help\<close> raises
  \<^verbatim>\<open>TypeError\<close> inside \<^verbatim>\<open>parse\<close>, during the call.
\<close>

theorem malformed_counterexample:
  "execute (example_subclasses @ [plain_subclass ''HelpCommand'']) ''/time set 7'' example_context =
     (Inr COMMAND_HANDLED,
      example_context\<lparr>controller := Some \<lparr>time_of_day = PyInt 7\<rparr>\<rparr>) \<and>
   parse (example_subclasses @ [plain_subclass ''HelpCommand'']) ''/help'' = Inl TypeError \<and>
   execute (example_subclasses @ [plain_subclass ''HelpCommand'']) ''/help'' example_context =
     (Inl TypeError, example_context)"
  by (simp add: eval_defs example_defs)

text \<open>
  C7, amended. A class whose \<^verbatim>\<open>command\<close> is absent, \<^verbatim>\<open>None\<close> or no regular
  expression is found out only when \<^verbatim>\<open>parse\<close> reaches it: for a text with the sentinel
  that no class before it matches, \<^verbatim>\<open>parse\<close> and \<^verbatim>\<open>execute\<close> raise at that class
  (\<^verbatim>\<open>Exception\<close>, \<^verbatim>\<open>TypeError\<close> or \<^verbatim>\<open>re.error\<close>) and the context is unchanged.
\<close>

theorem malformed_fails_in_dispatch:
  assumes "startswith_slash text"
    and "\<forall>c \<in> set pre. \<exists>r. command c = Pattern r \<and> re_match r (strip (from1 text)) = None"
    and "\<forall>r. command ct \<noteq> Pattern r"
  shows "parse (pre @ ct # post) text =
           Inl (case command ct of
                  NoAttr \<Rightarrow> PlainException ''Subclasses of Command must have a command attribute.''
                | AttrNone \<Rightarrow> TypeError
                | _ \<Rightarrow> ReError) \<and>
         execute (pre @ ct # post) text ctx = (Inl (case command ct of
                  NoAttr \<Rightarrow> PlainException ''Subclasses of Command must have a command attribute.''
                | AttrNone \<Rightarrow> TypeError
                | _ \<Rightarrow> ReError), ctx)"
  using assms
  by (cases "command ct") (simp_all add: execute_def parse_def parse_loop_skip)

theorem malformed_fails_in_dispatch_witness:
  "startswith_slash ''/help'' \<and>
   strip (from1 ''/help'') = ''help'' \<and>
   example_subclasses = [GiveBlockCommand example_float example_add_item, SetTimeCommand] \<and>
   command (GiveBlockCommand example_float example_add_item) = Pattern GiveBlockCommand_command \<and>
   re_match GiveBlockCommand_command ''help'' = None \<and>
   command (SetTimeCommand :: ((int \<times> int) list, unit) execution_context command_type)
     = Pattern SetTimeCommand_command \<and>
   re_match SetTimeCommand_command ''help'' = None \<and>
   command (plain_subclass ''HelpCommand''
             :: ((int \<times> int) list, unit) execution_context command_type) = AttrNone \<and>
   parse (example_subclasses @ plain_subclass ''HelpCommand'' # []) ''/help'' = Inl TypeError \<and>
   execute (example_subclasses @ plain_subclass ''HelpCommand'' # []) ''/help'' example_context =
     (Inl TypeError, example_context)"
proof -
  have h1: "startswith_slash ''/help''"
    by (simp add: startswith_slash_def)
  have s: "strip (from1 ''/help'') = ''help''"
    by (simp add: from1_def strip_def isspace_def)
  have g: "command (GiveBlockCommand example_float example_add_item)
             = Pattern GiveBlockCommand_command"
    and t: "command (SetTimeCommand :: ((int \<times> int) list, unit) execution_context command_type)
             = Pattern SetTimeCommand_command"
    by (simp_all add: GiveBlockCommand_def SetTimeCommand_def)
  have ng: "re_match GiveBlockCommand_command ''help'' = None"
    and nt: "re_match SetTimeCommand_command ''help'' = None"
    by (simp_all add: eval_defs)
  have l: "example_subclasses = [GiveBlockCommand example_float example_add_item, SetTimeCommand]"
    by (simp add: example_subclasses_def Command_subclasses_def)
  have h2: "\<forall>c \<in> set example_subclasses.
      \<exists>r. command c = Pattern r \<and> re_match r (strip (from1 ''/help'')) = None"
    by (simp add: l s g t ng nt)
  have c: "command (plain_subclass ''HelpCommand''
             :: ((int \<times> int) list, unit) execution_context command_type) = AttrNone"
    by (simp add: plain_subclass_def)
  then have h3: "\<forall>r. command (plain_subclass ''HelpCommand''
             :: ((int \<times> int) list, unit) execution_context command_type) \<noteq> Pattern r"
    by simp
  from malformed_fails_in_dispatch [OF h1 h2 h3, of "[]" example_context]
  show ?thesis using h1 s l g t ng nt c by simp
qed

section \<open>Binding the groups of a match to arguments\<close>

text \<open>
  C8. When \<^verbatim>\<open>parse\<close> finds a command, \<^verbatim>\<open>execute\<close> calls its handler with the
  positional arguments \<open>call_args m\<close> and the keyword arguments \<open>call_kwargs m\<close>. A group
  that took no part in the match gives no argument at all. Positionally: \<^verbatim>\<open>None\<close> is
  never passed, there are exactly as many arguments as groups that took part, and the
  value of a group that took part stands at the position given by the number of groups
  before it that took part, so the groups after an absent one move down. By keyword:
  no keyword has the value \<^verbatim>\<open>None\<close>, every keyword passed is the name of a group with
  the value that group captured, and a named group that took no part has no keyword.
  The match has one entry per group of the pattern and the pattern's names.
\<close>

theorem absent_group_dropped:
  assumes "parse subclasses text = Inr (Some (cmd, m))"
  shows "execute subclasses text ctx =
           handled (exec (cls cmd) (command_text cmd) (call_args m) (call_kwargs m) ctx) \<and>
         PyNone \<notin> set (call_args m) \<and>
         length (call_args m) = length (filter (\<lambda>g. g \<noteq> PyNone) (groups m)) \<and>
         (\<forall>i < length (groups m). groups m ! i \<noteq> PyNone \<longrightarrow>
            call_args m ! length (filter (\<lambda>g. g \<noteq> PyNone) (take i (groups m))) = groups m ! i) \<and>
         (\<forall>r. command (cls cmd) = Pattern r \<longrightarrow>
            length (groups m) = ngroups r \<and> mgroupindex m = groupindex r) \<and>
         PyNone \<notin> snd ` set (call_kwargs m) \<and>
         (\<forall>n v. map_of (call_kwargs m) n = Some v \<longrightarrow>
            v \<noteq> PyNone \<and> (\<exists>i. (n, i) \<in> set (mgroupindex m) \<and> groups m ! (i - 1) = v)) \<and>
         (distinct (map fst (mgroupindex m)) \<longrightarrow>
            (\<forall>(n, i) \<in> set (mgroupindex m).
               groups m ! (i - 1) = PyNone \<longrightarrow> map_of (call_kwargs m) n = None))"
proof -
  have a: "PyNone \<notin> set (call_args m)"
    and b: "length (call_args m) = length (filter (\<lambda>g. g \<noteq> PyNone) (groups m))"
    and c: "\<forall>i < length (groups m). groups m ! i \<noteq> PyNone \<longrightarrow>
            call_args m ! length (filter (\<lambda>g. g \<noteq> PyNone) (take i (groups m))) = groups m ! i"
    by (simp_all add: call_args_def filter_nth_shift)
  have d: "\<forall>r. command (cls cmd) = Pattern r \<longrightarrow>
            length (groups m) = ngroups r \<and> mgroupindex m = groupindex r"
    using parse_Some [OF assms] re_match_shape by fastforce
  have e: "\<forall>n v. map_of (call_kwargs m) n = Some v \<longrightarrow>
            v \<noteq> PyNone \<and> (\<exists>i. (n, i) \<in> set (mgroupindex m) \<and> groups m ! (i - 1) = v)"
    using kwargs_from_groups by blast
  have f: "distinct (map fst (mgroupindex m)) \<longrightarrow>
            (\<forall>(n, i) \<in> set (mgroupindex m).
               groups m ! (i - 1) = PyNone \<longrightarrow> map_of (call_kwargs m) n = None)"
    using kwargs_absent_key by blast
  from execute_parsed [OF assms] a b c d kwargs_no_None e f show ?thesis by blast
qed

theorem absent_group_dropped_witness:
  "parse [recording_command ''GoCommand'' go_command] ''/go 7'' =
     Inr (Some (\<lparr>cls = recording_command ''GoCommand'' go_command, command_text = ''go 7''\<rparr>,
                \<lparr>groups = [PyNone, PyStr ''7'', PyNone],
                 mgroupindex = [(''n'', 2), (''y'', 3)]\<rparr>)) \<and>
   command (recording_command ''GoCommand'' go_command) = Pattern go_command \<and>
   ngroups go_command = 3 \<and>
   groupindex go_command = [(''n'', 2), (''y'', 3)] \<and>
   execute [recording_command ''GoCommand'' go_command] ''/go 7'' [] =
     (Inr COMMAND_HANDLED, [(''GoCommand'', [PyStr ''7''], [(''n'', PyStr ''7'')])]) \<and>
   call_args \<lparr>groups = [PyNone, PyStr ''7'', PyNone],
              mgroupindex = [(''n'', 2), (''y'', 3)]\<rparr> = [PyStr ''7''] \<and>
   call_kwargs \<lparr>groups = [PyNone, PyStr ''7'', PyNone],
                mgroupindex = [(''n'', 2), (''y'', 3)]\<rparr> = [(''n'', PyStr ''7'')] \<and>
   PyNone \<notin> set (call_args \<lparr>groups = [PyNone, PyStr ''7'', PyNone],
                               mgroupindex = [(''n'', 2), (''y'', 3)]\<rparr>) \<and>
   length (call_args \<lparr>groups = [PyNone, PyStr ''7'', PyNone],
                      mgroupindex = [(''n'', 2), (''y'', 3)]\<rparr>) = 1 \<and>
   (1::nat) < length (groups \<lparr>groups = [PyNone, PyStr ''7'', PyNone],
                              mgroupindex = [(''n'', 2), (''y'', 3)]\<rparr>) \<and>
   groups \<lparr>groups = [PyNone, PyStr ''7'', PyNone],
           mgroupindex = [(''n'', 2), (''y'', 3)]\<rparr> ! 1 \<noteq> PyNone \<and>
   call_args \<lparr>groups = [PyNone, PyStr ''7'', PyNone],
              mgroupindex = [(''n'', 2), (''y'', 3)]\<rparr> ! 0 = PyStr ''7'' \<and>
   PyNone \<notin> snd ` set (call_kwargs \<lparr>groups = [PyNone, PyStr ''7'', PyNone],
                                      mgroupindex = [(''n'', 2), (''y'', 3)]\<rparr>) \<and>
   map_of (call_kwargs \<lparr>groups = [PyNone, PyStr ''7'', PyNone],
                        mgroupindex = [(''n'', 2), (''y'', 3)]\<rparr>) ''n'' = Some (PyStr ''7'') \<and>
   distinct (map fst (mgroupindex \<lparr>groups = [PyNone, PyStr ''7'', PyNone],
                                   mgroupindex = [(''n'', 2), (''y'', 3)]\<rparr>)) \<and>
   (''y'', 3) \<in> set (mgroupindex \<lparr>groups = [PyNone, PyStr ''7'', PyNone],
                                   mgroupindex = [(''n'', 2), (''y'', 3)]\<rparr>) \<and>
   groups \<lparr>groups = [PyNone, PyStr ''7'', PyNone],
           mgroupindex = [(''n'', 2), (''y'', 3)]\<rparr> ! (3 - 1) = PyNone \<and>
   map_of (call_kwargs \<lparr>groups = [PyNone, PyStr ''7'', PyNone],
                        mgroupindex = [(''n'', 2), (''y'', 3)]\<rparr>) ''y'' = None"
proof -
  let ?m = "\<lparr>groups = [PyNone, PyStr ''7'', PyNone], mgroupindex = [(''n'', 2), (''y'', 3)]\<rparr>"
  let ?c = "\<lparr>cls = recording_command ''GoCommand'' go_command, command_text = ''go 7''\<rparr>"
  have rm: "re_match go_command ''go 7'' = Some ?m"
    by (simp add: eval_defs go_command_def)
  have h: "parse [recording_command ''GoCommand'' go_command] ''/go 7'' = Inr (Some (?c, ?m))"
    by (simp add: parse_def startswith_slash_def from1_def strip_def isspace_def
        recording_command_def rm)
  have p: "command (recording_command ''GoCommand'' go_command) = Pattern go_command"
    by (simp add: recording_command_def)
  have ng: "ngroups go_command = 3"
    and gi: "groupindex go_command = [(''n'', 2), (''y'', 3)]"
    by (simp_all add: groupindex_def go_command_def seqs_def lit_def)
  have ca: "call_args ?m = [PyStr ''7'']" and ck: "call_kwargs ?m = [(''n'', PyStr ''7'')]"
    by (simp_all add: call_args_def call_kwargs_def groupdict_def)
  have run: "handled (exec (cls ?c) (command_text ?c) [PyStr ''7''] [(''n'', PyStr ''7'')] [])
     = (Inr COMMAND_HANDLED, [(''GoCommand'', [PyStr ''7''], [(''n'', PyStr ''7'')])])"
    by (simp add: handled_def recording_command_def recording_execute_def COMMAND_HANDLED_def)
  from absent_group_dropped [OF h, of "[]"]
  show ?thesis using h p ng gi ca ck run by simp
qed

text \<open>
  C9, as stated, fails: in \<^verbatim>\<open>^go(?: (a))? (?P<y>\d+)$\<close> the named group is group 2;
  on \<^verbatim>\<open>/go 7\<close> it captures \<^verbatim>\<open>7\<close> while group 1 takes no part, and the handler is
  called as \<^verbatim>\<open>execute('7', y='7')\<close>: the value is the first positional argument, and
  there is no second one.
\<close>

theorem named_group_position_counterexample:
  "parse [recording_command ''GoCommand'' go_named] ''/go 7'' =
     Inr (Some (\<lparr>cls = recording_command ''GoCommand'' go_named, command_text = ''go 7''\<rparr>,
                \<lparr>groups = [PyNone, PyStr ''7''], mgroupindex = [(''y'', 2)]\<rparr>)) \<and>
   command (recording_command ''GoCommand'' go_named) = Pattern go_named \<and>
   groupindex go_named = [(''y'', 2)] \<and>
   distinct (map fst (groupindex go_named)) \<and>
   groups \<lparr>groups = [PyNone, PyStr ''7''], mgroupindex = [(''y'', 2)]\<rparr> ! (2 - 1) = PyStr ''7'' \<and>
   call_args \<lparr>groups = [PyNone, PyStr ''7''], mgroupindex = [(''y'', 2)]\<rparr> = [PyStr ''7''] \<and>
   call_kwargs \<lparr>groups = [PyNone, PyStr ''7''], mgroupindex = [(''y'', 2)]\<rparr>
     = [(''y'', PyStr ''7'')] \<and>
   \<not> 2 - 1 < length (call_args \<lparr>groups = [PyNone, PyStr ''7''], mgroupindex = [(''y'', 2)]\<rparr>) \<and>
   execute [recording_command ''GoCommand'' go_named] ''/go 7'' [] =
     (Inr COMMAND_HANDLED, [(''GoCommand'', [PyStr ''7''], [(''y'', PyStr ''7'')])])"
proof -
  let ?m = "\<lparr>groups = [PyNone, PyStr ''7''], mgroupindex = [(''y'', 2)]\<rparr>"
  let ?c = "\<lparr>cls = recording_command ''GoCommand'' go_named, command_text = ''go 7''\<rparr>"
  have rm: "re_match go_named ''go 7'' = Some ?m"
    by (simp add: eval_defs go_named_def)
  have h: "parse [recording_command ''GoCommand'' go_named] ''/go 7'' = Inr (Some (?c, ?m))"
    by (simp add: parse_def startswith_slash_def from1_def strip_def isspace_def
        recording_command_def rm)
  have p: "command (recording_command ''GoCommand'' go_named) = Pattern go_named"
    by (simp add: recording_command_def)
  have gi: "groupindex go_named = [(''y'', 2)]"
    by (simp add: groupindex_def go_named_def seqs_def lit_def)
  have ca: "call_args ?m = [PyStr ''7'']" and ck: "call_kwargs ?m = [(''y'', PyStr ''7'')]"
    by (simp_all add: call_args_def call_kwargs_def groupdict_def)
  have run: "handled (exec (cls ?c) (command_text ?c) [PyStr ''7''] [(''y'', PyStr ''7'')] [])
     = (Inr COMMAND_HANDLED, [(''GoCommand'', [PyStr ''7''], [(''y'', PyStr ''7'')])])"
    by (simp add: handled_def recording_command_def recording_execute_def COMMAND_HANDLED_def)
  have ex: "execute [recording_command ''GoCommand'' go_named] ''/go 7'' [] =
     (Inr COMMAND_HANDLED, [(''GoCommand'', [PyStr ''7''], [(''y'', PyStr ''7'')])])"
    using execute_parsed [OF h, of "[]"] ca ck run by simp
  from h p gi ca ck ex show ?thesis by simp
qed

text \<open>
  C9, amended. A named group that took part in the match gives its value twice to the
  handler: in the positional arguments, at the position given by the number of groups
  before it that took part (its own group position when every group before it took
  part), and in the keyword arguments under its name. The names of a pattern are
  distinct, as \<^verbatim>\<open>re\<close> demands.
\<close>

theorem named_group_bound_twice:
  assumes "parse subclasses text = Inr (Some (cmd, m))"
    and "command (cls cmd) = Pattern r"
    and "distinct (map fst (groupindex r))"
    and "(n, i) \<in> set (groupindex r)"
    and "groups m ! (i - 1) \<noteq> PyNone"
  shows "execute subclasses text ctx =
           handled (exec (cls cmd) (command_text cmd) (call_args m) (call_kwargs m) ctx) \<and>
         1 \<le> i \<and> i \<le> length (groups m) \<and>
         call_args m ! length (filter (\<lambda>g. g \<noteq> PyNone) (take (i - 1) (groups m)))
           = groups m ! (i - 1) \<and>
         ((\<forall>j < i - 1. groups m ! j \<noteq> PyNone) \<longrightarrow> call_args m ! (i - 1) = groups m ! (i - 1)) \<and>
         map_of (call_kwargs m) n = Some (groups m ! (i - 1))"
proof -
  from parse_Some[OF assms(1)] assms(2)
  have rm: "re_match r (strip (from1 text)) = Some m" by auto
  from re_match_shape[OF rm]
  have len: "length (groups m) = ngroups r" and gi: "mgroupindex m = groupindex r" by auto
  from groupindex_from_range[of n i 0 r] assms(4)
  have rng: "1 \<le> i" "i \<le> length (groups m)" using len by (auto simp: groupindex_def)
  then have lt: "i - 1 < length (groups m)" by simp
  have a: "call_args m ! length (filter (\<lambda>g. g \<noteq> PyNone) (take (i - 1) (groups m)))
           = groups m ! (i - 1)"
    unfolding call_args_def using lt assms(5) by (rule filter_nth_shift)
  have a': "call_args m ! (i - 1) = groups m ! (i - 1)" if "\<forall>j < i - 1. groups m ! j \<noteq> PyNone"
  proof -
    have "length (filter (\<lambda>g. g \<noteq> PyNone) (take (i - 1) (groups m))) = i - 1"
      using that lt by (intro filter_take_all) auto
    with a show ?thesis by simp
  qed
  have b: "map_of (call_kwargs m) n = Some (groups m ! (i - 1))"
    unfolding call_kwargs_def groupdict_def gi
    using assms(3) assms(4) assms(5) by (rule map_of_kwargs)
  from a a' b rng execute_parsed [OF assms(1)] show ?thesis by simp
qed

theorem named_group_bound_twice_witness:
  "parse [recording_command ''TpCommand'' tp_command] ''/tp 3 7'' =
     Inr (Some (\<lparr>cls = recording_command ''TpCommand'' tp_command, command_text = ''tp 3 7''\<rparr>,
                \<lparr>groups = [PyStr ''3'', PyStr ''7''], mgroupindex = [(''y'', 2)]\<rparr>)) \<and>
   command (recording_command ''TpCommand'' tp_command) = Pattern tp_command \<and>
   distinct (map fst (groupindex tp_command)) \<and>
   (''y'', 2) \<in> set (groupindex tp_command) \<and>
   groups \<lparr>groups = [PyStr ''3'', PyStr ''7''], mgroupindex = [(''y'', 2)]\<rparr> ! (2 - 1) \<noteq> PyNone \<and>
   groups \<lparr>groups = [PyStr ''3'', PyStr ''7''], mgroupindex = [(''y'', 2)]\<rparr> ! 0 \<noteq> PyNone \<and>
   execute [recording_command ''TpCommand'' tp_command] ''/tp 3 7'' [] =
     (Inr COMMAND_HANDLED, [(''TpCommand'', [PyStr ''3'', PyStr ''7''], [(''y'', PyStr ''7'')])]) \<and>
   call_args \<lparr>groups = [PyStr ''3'', PyStr ''7''], mgroupindex = [(''y'', 2)]\<rparr> ! (2 - 1) = PyStr ''7'' \<and>
   map_of (call_kwargs \<lparr>groups = [PyStr ''3'', PyStr ''7''], mgroupindex = [(''y'', 2)]\<rparr>) ''y''
     = Some (PyStr ''7'')"
proof -
  let ?m = "\<lparr>groups = [PyStr ''3'', PyStr ''7''], mgroupindex = [(''y'', 2)]\<rparr>"
  let ?c = "\<lparr>cls = recording_command ''TpCommand'' tp_command, command_text = ''tp 3 7''\<rparr>"
  have rm: "re_match tp_command ''tp 3 7'' = Some ?m"
    by (simp add: eval_defs tp_command_def)
  have h1: "parse [recording_command ''TpCommand'' tp_command] ''/tp 3 7'' = Inr (Some (?c, ?m))"
    by (simp add: parse_def startswith_slash_def from1_def strip_def isspace_def
        recording_command_def rm)
  have h2: "command (cls ?c) = Pattern tp_command"
    by (simp add: recording_command_def)
  have gi: "groupindex tp_command = [(''y'', 2)]"
    by (simp add: groupindex_def tp_command_def seqs_def lit_def)
  have h3: "distinct (map fst (groupindex tp_command))"
    and h4: "(''y'', 2) \<in> set (groupindex tp_command)"
    by (simp_all add: gi)
  have h5: "groups ?m ! (2 - 1) \<noteq> PyNone"
    by simp
  have h6: "\<forall>j < 2 - (1::nat). groups ?m ! j \<noteq> PyNone"
    by simp
  have ca: "call_args ?m = [PyStr ''3'', PyStr ''7'']"
    and ck: "call_kwargs ?m = [(''y'', PyStr ''7'')]"
    by (simp_all add: call_args_def call_kwargs_def groupdict_def)
  have run: "handled (exec (cls ?c) (command_text ?c) [PyStr ''3'', PyStr ''7''] [(''y'', PyStr ''7'')] [])
     = (Inr COMMAND_HANDLED, [(''TpCommand'', [PyStr ''3'', PyStr ''7''], [(''y'', PyStr ''7'')])])"
    by (simp add: handled_def recording_command_def recording_execute_def COMMAND_HANDLED_def)
  from named_group_bound_twice [OF h1 h2 h3 h4 h5, of "[]"]
  show ?thesis using h1 h2 h3 h4 h6 ca ck run by simp
qed

section \<open>Failure of \<^verbatim>\<open>SetTimeCommand.execute\<close>\<close>

text \<open>
  The handler raises its \<^verbatim>\<open>CommandException\<close> exactly when \<^verbatim>\<open>int(time)\<close> raises
  \<^verbatim>\<open>ValueError\<close> or gives a number outside 0 to 24.
\<close>

lemma set_time_errors:
  "SetTimeCommand_body self_text time ctx =
     (Inl (CommandException self_text (Some ''Time should be a number between 0 and 24'')), ctx)
   \<longleftrightarrow> (py_int time = Inl ValueError \<or> (\<exists>tod. py_int time = Inr tod \<and> (tod < 0 \<or> 24 < tod)))"
  by (cases time)
    (auto simp: SetTimeCommand_body_def SetTimeCommand_except_def int_of_string_def Let_def
      split: sum.splits option.splits if_splits)

text \<open>When the handler returns, it has stored a number from 0 to 24 and returns \<^verbatim>\<open>None\<close>.\<close>

lemma set_time_success:
  assumes "SetTimeCommand_execute self_text args kwargs ctx = (Inr v, ctx')"
  shows "v = PyNone \<and> (\<exists>c tod. controller ctx = Some c \<and> 0 \<le> tod \<and> tod \<le> 24 \<and>
           ctx' = ctx\<lparr>controller := Some (c\<lparr>time_of_day := PyInt tod\<rparr>)\<rparr>)"
  using assms
  by (auto simp: SetTimeCommand_execute_def SetTimeCommand_body_def
      split: if_splits sum.splits option.splits)

text \<open>
  C10. Whenever \<^verbatim>\<open>SetTimeCommand.execute\<close> raises, be it the \<^verbatim>\<open>CommandException\<close> for
  a value that is no integer or lies outside 0 to 24 or any other exception, the context
  is what it was before the call: \<^verbatim>\<open>time_of_day\<close> is assigned on the path that
  returns, and only there.
\<close>

theorem set_time_atomic:
  assumes "fst (SetTimeCommand_execute self_text args kwargs ctx) = Inl e"
  shows "snd (SetTimeCommand_execute self_text args kwargs ctx) = ctx"
  using assms
  by (auto simp: SetTimeCommand_execute_def SetTimeCommand_body_def
      split: if_splits sum.splits option.splits)

theorem set_time_atomic_witness:
  "fst (SetTimeCommand_execute ''time set 25'' [PyStr ''25''] [] example_context) =
     Inl (CommandException ''time set 25'' (Some ''Time should be a number between 0 and 24'')) \<and>
   snd (SetTimeCommand_execute ''time set 25'' [PyStr ''25''] [] example_context) = example_context"
proof -
  have h: "fst (SetTimeCommand_execute ''time set 25'' [PyStr ''25''] [] example_context) =
     Inl (CommandException ''time set 25'' (Some ''Time should be a number between 0 and 24''))"
    by (simp add: eval_defs)
  from h set_time_atomic [OF h] show ?thesis by simp
qed

end
